theory Spec2Isabelle
  imports Main "HOL-Library.AList" "HOL-Library.Sublist"
begin

section \<open>Python values and the option bag\<close>

text \<open>
  The handlers of \<^verbatim>\<open>biothings/web/api/es/handlers/base_handler.py\<close> work on
  dynamically typed values: option values, the message dictionary of an error response,
  the per-item templates. They are modelled by the JSON-like fragment of Python's values.
  A dictionary is an association list in insertion order, as Python keeps it.
\<close>

datatype pyval =
    PNone
  | PBool bool
  | PInt int
  | PStr string
  | PList "pyval list"
  | PDict "(string \<times> pyval) list"

type_synonym pydict = "(string \<times> pyval) list"

text \<open>
  The exceptions the handlers raise or meet. \<open>Finish\<close> is tornado's early-finish signal
  with its payload; \<open>BadRequest\<close> carries its keyword arguments (\<^verbatim>\<open>exception.kwargs\<close>);
  \<open>OtherError\<close> stands for any exception of a collaborator, with its message.
\<close>

datatype 'r exn =
    Finish 'r
  | TypeError
  | KeyError
  | AssertionError
  | BadRequest pydict
  | OtherError string

text \<open>Python's truth value of an object, as \<^verbatim>\<open>if x\<close> and \<^verbatim>\<open>not x\<close> test it.\<close>

fun truthy :: "pyval \<Rightarrow> bool" where
  "truthy PNone = False"
| "truthy (PBool b) = b"
| "truthy (PInt i) = (i \<noteq> 0)"
| "truthy (PStr s) = (s \<noteq> [])"
| "truthy (PList xs) = (xs \<noteq> [])"
| "truthy (PDict kvs) = (kvs \<noteq> [])"

text \<open>\<^verbatim>\<open>a or b\<close>: the first operand when it is true, the second otherwise.\<close>

definition py_or :: "pyval \<Rightarrow> pyval \<Rightarrow> pyval" where
  "py_or a b = (if truthy a then a else b)"

text \<open>
  \<^verbatim>\<open>s in c\<close> for a string \<open>s\<close>: a substring test on a string, membership by equality
  in a list, key membership in a dictionary, and a \<^verbatim>\<open>TypeError\<close> on a value that is
  not a container (\<^verbatim>\<open>'all' in True\<close> raises "argument of type 'bool' is not iterable").
\<close>

fun py_in :: "string \<Rightarrow> pyval \<Rightarrow> 'r exn + bool" where
  "py_in s (PStr t) = Inr (sublist s t)"
| "py_in s (PList xs) = Inr (PStr s \<in> set xs)"
| "py_in s (PDict kvs) = Inr (s \<in> fst ` set kvs)"
| "py_in s PNone = Inl TypeError"
| "py_in s (PBool b) = Inl TypeError"
| "py_in s (PInt i) = Inl TypeError"

text \<open>
  The items a \<^verbatim>\<open>for\<close> clause draws from a value: the elements of a list, the
  characters of a string, the keys of a dictionary; \<^verbatim>\<open>TypeError\<close> otherwise. A
  generator expression evaluates \<^verbatim>\<open>iter\<close> of its outermost iterable when it is
  created, so the error is raised at that point.
\<close>

fun py_iter :: "pyval \<Rightarrow> 'r exn + pyval list" where
  "py_iter (PList xs) = Inr xs"
| "py_iter (PStr s) = Inr (map (\<lambda>c. PStr [c]) s)"
| "py_iter (PDict kvs) = Inr (map (\<lambda>kv. PStr (fst kv)) kvs)"
| "py_iter PNone = Inl TypeError"
| "py_iter (PBool b) = Inl TypeError"
| "py_iter (PInt i) = Inl TypeError"

subsection \<open>dotdict\<close>

text \<open>
  Modelled from the spec: \<^verbatim>\<open>biothings.utils.common.dotdict\<close> is imported by the handler
  module and is not among the sources. It is a dictionary whose keys are also attributes
  (the spec's mapping of option name to value, mutated in place by the cleaner): reading
  an attribute is \<^verbatim>\<open>dict.get(name, None)\<close>, so that an absent option reads as
  \<^verbatim>\<open>None\<close>; assigning one is \<^verbatim>\<open>dict.__setitem__\<close>; \<^verbatim>\<open>pop\<close> is the dictionary's
  own, with or without a default.
\<close>

definition dd_getattr :: "pydict \<Rightarrow> string \<Rightarrow> pyval" where
  "dd_getattr d k = (case map_of d k of None \<Rightarrow> PNone | Some v \<Rightarrow> v)"

definition dd_setattr :: "string \<Rightarrow> pyval \<Rightarrow> pydict \<Rightarrow> pydict" where
  "dd_setattr k v d = AList.update k v d"

text \<open>\<^verbatim>\<open>d.pop(k, None)\<close>: removes the key when it is there, never raises.\<close>

definition dd_pop_default :: "string \<Rightarrow> pydict \<Rightarrow> pydict" where
  "dd_pop_default k d = AList.delete k d"

text \<open>\<^verbatim>\<open>d.pop(k)\<close>: removes the key, \<^verbatim>\<open>KeyError\<close> when it is not there.\<close>

definition dd_pop :: "string \<Rightarrow> pydict \<Rightarrow> 'r exn + pydict" where
  "dd_pop k d = (case map_of d k of None \<Rightarrow> Inl KeyError | Some v \<Rightarrow> Inr (AList.delete k d))"

text \<open>
  The grouped options of a request: one dotdict per stage. The stages are fixed by
  \<^verbatim>\<open>kwarg_types = ('control', 'esqb', 'es', 'transform')\<close>.
\<close>

record options =
  control :: pydict
  esqb :: pydict
  es :: pydict
  transform :: pydict

text \<open>
  What the methods read from \<^verbatim>\<open>self\<close>: the biothing type set by \<^verbatim>\<open>initialize\<close>,
  the method of the request, and tornado's \<^verbatim>\<open>_reason\<close>, the reason phrase of the
  status that \<^verbatim>\<open>send_error\<close> has set before it calls \<^verbatim>\<open>write_error\<close>.
\<close>

record handler =
  biothing_type :: string
  request_method :: string
  self_reason :: string

section \<open>ESRequestHandler.get_cleaned_options\<close>

text \<open>
  The method mutates the option bag in place and returns it; the model returns the new
  bag, or the exception that leaves the method. Each block of the method is one
  function, in the order of the source. The call of \<^verbatim>\<open>logging.debug\<close> at the end
  does not change the options and is left out.
\<close>

text \<open>
  \<^verbatim>\<open>if not options.esqb.aggs: options.esqb.pop('facet_size', None)\<close>
\<close>

definition clean_esqb :: "options \<Rightarrow> options" where
  "clean_esqb opts =
     (if \<not> truthy (dd_getattr (esqb opts) ''aggs'')
      then opts\<lparr>esqb := dd_pop_default ''facet_size'' (esqb opts)\<rparr>
      else opts)"

text \<open>
  \<^verbatim>\<open>if options.es.fetch_all: options.es.pop('sort', None); options.es.pop('size', None)\<close>
\<close>

definition clean_fetch_all :: "options \<Rightarrow> options" where
  "clean_fetch_all opts =
     (if truthy (dd_getattr (es opts) ''fetch_all'')
      then opts\<lparr>es := dd_pop_default ''size'' (dd_pop_default ''sort'' (es opts))\<rparr>
      else opts)"

text \<open>
  \<^verbatim>\<open>if options.es._source is not None:
    if not options.es._source: options.es.pop('_source')
    elif 'all' in options.es._source: options.es._source = True\<close>
\<close>

definition clean_source :: "options \<Rightarrow> 'r exn + options" where
  "clean_source opts =
     (let src = dd_getattr (es opts) ''_source'' in
      if src \<noteq> PNone then
        if \<not> truthy src then
          (case dd_pop ''_source'' (es opts) of
             Inl e \<Rightarrow> Inl e
           | Inr d \<Rightarrow> Inr (opts\<lparr>es := d\<rparr>))
        else
          (case py_in ''all'' src of
             Inl e \<Rightarrow> Inl e
           | Inr True \<Rightarrow> Inr (opts\<lparr>es := dd_setattr ''_source'' (PBool True) (es opts)\<rparr>)
           | Inr False \<Rightarrow> Inr opts)
      else Inr opts)"

text \<open>
  \<^verbatim>\<open>options.transform.biothing_type = self.biothing_type\<close>
\<close>

definition inject_biothing_type :: "handler \<Rightarrow> options \<Rightarrow> options" where
  "inject_biothing_type self opts =
     opts\<lparr>transform := dd_setattr ''biothing_type'' (PStr (biothing_type self)) (transform opts)\<rparr>"

text \<open>
  \<^verbatim>\<open>if self.request.method == 'POST':
    queries = options.esqb.ids or options.esqb.q
    options.transform.templates = (dict(query=q) for q in queries)
    options.transform.template_miss = dict(notfound=True)
    options.transform.template_hit = dict()\<close>

  The generator of the templates is represented by the list of the items it yields.
\<close>

definition query_template :: "pyval \<Rightarrow> pyval" where
  "query_template q = PDict [(''query'', q)]"

definition inject_templates :: "handler \<Rightarrow> options \<Rightarrow> 'r exn + options" where
  "inject_templates self opts =
     (if request_method self = ''POST'' then
        (let queries = py_or (dd_getattr (esqb opts) ''ids'') (dd_getattr (esqb opts) ''q'') in
         case py_iter queries of
           Inl e \<Rightarrow> Inl e
         | Inr qs \<Rightarrow>
             Inr (opts\<lparr>transform :=
                    dd_setattr ''template_hit'' (PDict [])
                      (dd_setattr ''template_miss'' (PDict [(''notfound'', PBool True)])
                        (dd_setattr ''templates'' (PList (map query_template qs))
                          (transform opts)))\<rparr>))
      else Inr opts)"

definition get_cleaned_options :: "handler \<Rightarrow> options \<Rightarrow> 'r exn + options" where
  "get_cleaned_options self opts =
     (case clean_source (clean_fetch_all (clean_esqb opts)) of
        Inl e \<Rightarrow> Inl e
      | Inr opts' \<Rightarrow> inject_templates self (inject_biothing_type self opts'))"

section \<open>ESRequestHandler.execute_pipeline and its hooks\<close>

text \<open>
  The collaborators of the pipeline live in \<^verbatim>\<open>self.web_settings\<close> and are not part of
  the handler module; they are parameters of the model. Each may raise. \<open>'q\<close> is the type
  of the query objects the builder returns, \<open>'r\<close> the type of what the backend and the
  transformer return and of every payload handed to \<^verbatim>\<open>finish\<close>.
  \<open>query_to_dict\<close> is the \<^verbatim>\<open>to_dict\<close> method of the query objects.
\<close>

record ('q, 'r) web_settings =
  query_builder_build :: "pydict \<Rightarrow> 'r exn + 'q"
  query_to_dict :: "'q \<Rightarrow> 'r"
  query_backend_execute :: "'q \<Rightarrow> pydict \<Rightarrow> string \<Rightarrow> 'r exn + 'r"
  query_transform_transform :: "'r \<Rightarrow> pydict \<Rightarrow> 'r exn + 'r"

text \<open>
  The calls a run makes to the collaborators are its observable effects. A run records
  them in order, each with what the call returned or raised.
\<close>

datatype ('q, 'r) call =
    Build_call "'r exn + 'q"
  | Execute_call "'r exn + 'r"
  | Transform_call "'r exn + 'r"

fun is_execute_call :: "('q, 'r) call \<Rightarrow> bool" where
  "is_execute_call (Execute_call x) = True"
| "is_execute_call _ = False"

fun is_transform_call :: "('q, 'r) call \<Rightarrow> bool" where
  "is_transform_call (Transform_call x) = True"
| "is_transform_call _ = False"

text \<open>\<^verbatim>\<open>def pre_query_builder_hook(self, options): return options\<close>\<close>

definition pre_query_builder_hook :: "options \<Rightarrow> 'r exn + options" where
  "pre_query_builder_hook opts = Inr opts"

text \<open>
  \<^verbatim>\<open>if options.control.rawquery: raise Finish(query.to_dict())
  return query\<close>
\<close>

definition pre_query_hook :: "('q, 'r) web_settings \<Rightarrow> options \<Rightarrow> 'q \<Rightarrow> 'r exn + 'q" where
  "pre_query_hook ws opts query =
     (if truthy (dd_getattr (control opts) ''rawquery'')
      then Inl (Finish (query_to_dict ws query))
      else Inr query)"

text \<open>
  \<^verbatim>\<open>if options.control.raw: raise Finish(res)
  return res\<close>

  The raw result is the payload as it is: the hook applies no conversion to it.
\<close>

definition pre_transform_hook :: "options \<Rightarrow> 'r \<Rightarrow> 'r exn + 'r" where
  "pre_transform_hook opts res =
     (if truthy (dd_getattr (control opts) ''raw'') then Inl (Finish res) else Inr res)"

text \<open>\<^verbatim>\<open>def pre_finish_hook(self, options, res): return res\<close>\<close>

definition pre_finish_hook :: "options \<Rightarrow> 'r \<Rightarrow> 'r exn + 'r" where
  "pre_finish_hook opts res = Inr res"

text \<open>
  The coroutine, statement by statement. The first component of the result is the list
  of collaborator calls made; the second is \<open>Inr res\<close> when the run reaches
  \<^verbatim>\<open>self.finish(res)\<close>, and \<open>Inl e\<close> when the exception \<open>e\<close> leaves the method.
  The \<^verbatim>\<open>await\<close> of the backend is an ordinary call here: a run is one logical task.
\<close>

definition execute_pipeline ::
  "handler \<Rightarrow> ('q, 'r) web_settings \<Rightarrow> options \<Rightarrow> ('q, 'r) call list \<times> ('r exn + 'r)" where
  "execute_pipeline self ws grouped_options =
     (case get_cleaned_options self grouped_options of
        Inl e \<Rightarrow> ([], Inl e)
      | Inr opts0 \<Rightarrow>
     (case pre_query_builder_hook opts0 of
        Inl e \<Rightarrow> ([], Inl e)
      | Inr opts \<Rightarrow>
     (let built = query_builder_build ws (esqb opts) in
      case built of
        Inl e \<Rightarrow> ([Build_call built], Inl e)
      | Inr query0 \<Rightarrow>
     (case pre_query_hook ws opts query0 of
        Inl e \<Rightarrow> ([Build_call built], Inl e)
      | Inr query \<Rightarrow>
     (let executed = query_backend_execute ws query (es opts) (biothing_type self) in
      case executed of
        Inl e \<Rightarrow> ([Build_call built, Execute_call executed], Inl e)
      | Inr res0 \<Rightarrow>
     (case pre_transform_hook opts res0 of
        Inl e \<Rightarrow> ([Build_call built, Execute_call executed], Inl e)
      | Inr res1 \<Rightarrow>
     (let transformed = query_transform_transform ws res1 (transform opts) in
      case transformed of
        Inl e \<Rightarrow> ([Build_call built, Execute_call executed, Transform_call transformed], Inl e)
      | Inr res2 \<Rightarrow>
     (case pre_finish_hook opts res2 of
        Inl e \<Rightarrow> ([Build_call built, Execute_call executed, Transform_call transformed], Inl e)
      | Inr res \<Rightarrow>
          ([Build_call built, Execute_call executed, Transform_call transformed],
           Inr res)))))))))"

text \<open>
  Modelled from the spec: tornado's request loop, which calls the coroutine, is not among
  the sources. An early finish "always carries a payload that must be emitted as-is,
  bypassing all later steps": the payload of \<open>Finish\<close> is the response, as is the
  argument of \<^verbatim>\<open>self.finish\<close> on the normal path. Any other exception goes to the
  error formatter and the pipeline emits nothing itself.
\<close>

fun emitted :: "'r exn + 'r \<Rightarrow> 'r option" where
  "emitted (Inr res) = Some res"
| "emitted (Inl (Finish payload)) = Some payload"
| "emitted (Inl _) = None"

section \<open>BaseESRequestHandler.write_error\<close>

text \<open>
  The keyword arguments tornado's \<^verbatim>\<open>send_error\<close> passes on: an optional
  \<^verbatim>\<open>reason\<close> and an optional \<^verbatim>\<open>exc_info\<close>, of which the method reads component
  \<open>[1]\<close>, the exception value.
\<close>

record 'r error_kwargs =
  reason :: "string option"
  exc_info :: "'r exn option"

text \<open>\<^verbatim>\<open>reason = kwargs.pop('reason', self._reason)\<close>\<close>

definition resolve_reason :: "handler \<Rightarrow> 'r error_kwargs \<Rightarrow> string" where
  "resolve_reason self kwargs =
     (case reason kwargs of Some r \<Rightarrow> r | None \<Rightarrow> self_reason self)"

text \<open>
  \<^verbatim>\<open>message = {"code": status_code, "success": False, "error": reason}\<close>
\<close>

definition base_message :: "int \<Rightarrow> string \<Rightarrow> pydict" where
  "base_message status_code r =
     [(''code'', PInt status_code), (''success'', PBool False), (''error'', PStr r)]"

text \<open>
  \<^verbatim>\<open>dict.update(other)\<close>: every pair of \<open>other\<close> is stored in turn, so a key that is
  already there gets the new value and keeps its place.
\<close>

definition dict_update :: "pydict \<Rightarrow> pydict \<Rightarrow> pydict" where
  "dict_update d other = fold (\<lambda>kv. AList.update (fst kv) (snd kv)) other d"

text \<open>
  The extra pairs that are merged: those of a \<open>BadRequest\<close> in \<^verbatim>\<open>exc_info\<close>, none
  for any other exception or when there is no \<^verbatim>\<open>exc_info\<close>.
\<close>

fun bad_request_kwargs :: "'r exn option \<Rightarrow> pydict" where
  "bad_request_kwargs (Some (BadRequest kws)) = kws"
| "bad_request_kwargs _ = []"

text \<open>
  \<^verbatim>\<open>assert '\n' not in reason
  message = {...}
  if 'exc_info' in kwargs:
      exception = kwargs['exc_info'][1]
      if isinstance(exception, BadRequest) and exception.kwargs:
          message.update(exception.kwargs)
  self.finish(message)\<close>

  The result is the message handed to \<^verbatim>\<open>self.finish\<close>, or the \<^verbatim>\<open>AssertionError\<close>.
\<close>

definition write_error :: "handler \<Rightarrow> int \<Rightarrow> 'r error_kwargs \<Rightarrow> 'r exn + pydict" where
  "write_error self status_code kwargs =
     (let r = resolve_reason self kwargs in
      if CHR 0x0A \<in> set r then Inl AssertionError
      else
        (let message = base_message status_code r in
         Inr (case exc_info kwargs of
                Some (BadRequest kws) \<Rightarrow>
                  if kws \<noteq> [] then dict_update message kws else message
              | _ \<Rightarrow> message)))"

section \<open>Collaborators for running examples\<close>

text \<open>
  A builder that takes the \<^verbatim>\<open>q\<close> option as the query, a backend that answers with one
  hit holding the query, and a transformer that wraps the hits. Queries and payloads are
  Python values.
\<close>

definition echo_settings :: "(pyval, pyval) web_settings" where
  "echo_settings =
     \<lparr>query_builder_build = (\<lambda>d. Inr (dd_getattr d ''q'')),
      query_to_dict = (\<lambda>q. PDict [(''query'', q)]),
      query_backend_execute = (\<lambda>q d t. Inr (PDict [(''hits'', PList [q])])),
      query_transform_transform = (\<lambda>r d. Inr (PList [r]))\<rparr>"

section \<open>Facts about dictionaries\<close>

lemma map_of_dd_setattr:
  "map_of (dd_setattr k v d) k' = (if k' = k then Some v else map_of d k')"
  by (simp add: dd_setattr_def update_conv')

lemma map_of_dd_pop_default:
  "map_of (dd_pop_default k d) k' = (if k' = k then None else map_of d k')"
  by (simp add: dd_pop_default_def delete_conv')

lemma dd_pop_default_absent: "map_of d k = None \<Longrightarrow> dd_pop_default k d = d"
  by (simp add: dd_pop_default_def map_of_eq_None_iff)

lemma dd_setattr_present: "map_of d k = Some v \<Longrightarrow> dd_setattr k v d = d"
  by (simp add: dd_setattr_def update_triv)

lemma map_of_dict_update_other:
  "map_of other k = None \<Longrightarrow> map_of (dict_update d other) k = map_of d k"
proof (induction other arbitrary: d)
  case Nil
  then show ?case by (simp add: dict_update_def)
next
  case (Cons kv other)
  from Cons.prems have k: "fst kv \<noteq> k" and rest: "map_of other k = None"
    by (cases kv; simp split: if_splits)+
  have "map_of (dict_update d (kv # other)) k
      = map_of (dict_update (AList.update (fst kv) (snd kv) d) other) k"
    by (simp add: dict_update_def)
  also have "\<dots> = map_of (AList.update (fst kv) (snd kv) d) k"
    using rest by (rule Cons.IH)
  also have "\<dots> = map_of d k"
    using k by (simp add: update_conv')
  finally show ?case .
qed

lemma py_in_raises: "py_in s v = Inl e \<Longrightarrow> e = TypeError"
  by (cases v) auto

lemma py_iter_raises: "py_iter v = Inl e \<Longrightarrow> e = TypeError"
  by (cases v) auto

section \<open>The blocks of the cleaner\<close>

text \<open>What each block leaves alone, and the condition it establishes.\<close>

lemma clean_esqb_others:
  "control (clean_esqb opts) = control opts"
  "es (clean_esqb opts) = es opts"
  "transform (clean_esqb opts) = transform opts"
  "k \<noteq> ''facet_size'' \<Longrightarrow> map_of (esqb (clean_esqb opts)) k = map_of (esqb opts) k"
  by (simp_all add: clean_esqb_def map_of_dd_pop_default)

lemma clean_esqb_settled:
  "truthy (dd_getattr (esqb (clean_esqb opts)) ''aggs'')
     \<or> map_of (esqb (clean_esqb opts)) ''facet_size'' = None"
  by (simp add: clean_esqb_def dd_getattr_def map_of_dd_pop_default)

lemma clean_esqb_fixed:
  "truthy (dd_getattr (esqb opts) ''aggs'') \<or> map_of (esqb opts) ''facet_size'' = None
   \<Longrightarrow> clean_esqb opts = opts"
  by (auto simp: clean_esqb_def dd_pop_default_absent)

lemma clean_fetch_all_others:
  "control (clean_fetch_all opts) = control opts"
  "esqb (clean_fetch_all opts) = esqb opts"
  "transform (clean_fetch_all opts) = transform opts"
  "k \<noteq> ''sort'' \<Longrightarrow> k \<noteq> ''size'' \<Longrightarrow>
     map_of (es (clean_fetch_all opts)) k = map_of (es opts) k"
  by (simp_all add: clean_fetch_all_def map_of_dd_pop_default)

lemma clean_fetch_all_settled:
  "\<not> truthy (dd_getattr (es (clean_fetch_all opts)) ''fetch_all'')
     \<or> (map_of (es (clean_fetch_all opts)) ''sort'' = None
         \<and> map_of (es (clean_fetch_all opts)) ''size'' = None)"
  by (simp add: clean_fetch_all_def dd_getattr_def map_of_dd_pop_default)

lemma clean_fetch_all_fixed:
  "\<not> truthy (dd_getattr (es opts) ''fetch_all'')
     \<or> (map_of (es opts) ''sort'' = None \<and> map_of (es opts) ''size'' = None)
   \<Longrightarrow> clean_fetch_all opts = opts"
  by (auto simp: clean_fetch_all_def dd_pop_default_absent)

lemma clean_source_Inr:
  assumes "clean_source opts = (Inr opts' :: 'r exn + options)"
  shows "control opts' = control opts"
    and "esqb opts' = esqb opts"
    and "transform opts' = transform opts"
    and "\<And>k. k \<noteq> ''_source'' \<Longrightarrow> map_of (es opts') k = map_of (es opts) k"
    and "dd_getattr (es opts') ''_source'' = PBool True
         \<or> dd_getattr (es opts') ''_source'' = PNone
         \<or> (es opts' = es opts \<and> truthy (dd_getattr (es opts) ''_source'')
             \<and> py_in ''all'' (dd_getattr (es opts) ''_source'') = (Inr False :: 'r exn + bool))"
  using assms
  by (auto simp: clean_source_def Let_def dd_pop_def dd_getattr_def map_of_dd_setattr
        delete_conv'
      split: if_splits sum.splits bool.splits option.splits)


lemma clean_source_Inl:
  assumes "clean_source opts = (Inl e :: 'r exn + options)"
  shows "truthy (dd_getattr (es opts) ''_source'')"
    and "py_in ''all'' (dd_getattr (es opts) ''_source'') = (Inl e :: 'r exn + bool)"
  using assms
  by (auto simp: clean_source_def Let_def dd_pop_def dd_getattr_def
      split: if_splits sum.splits bool.splits option.splits)

lemma clean_source_raises:
  "clean_source opts = Inl e \<Longrightarrow> e = TypeError"
  by (auto dest: clean_source_Inl(2) py_in_raises)

lemma clean_source_fixed:
  "dd_getattr (es opts) ''_source'' = PNone
     \<or> (truthy (dd_getattr (es opts) ''_source'')
         \<and> py_in ''all'' (dd_getattr (es opts) ''_source'') = (Inr False :: 'r exn + bool))
   \<Longrightarrow> clean_source opts = (Inr opts :: 'r exn + options)"
  by (auto simp: clean_source_def Let_def)

lemma clean_source_of_True:
  "dd_getattr (es opts) ''_source'' = PBool True
   \<Longrightarrow> clean_source opts = (Inl TypeError :: 'r exn + options)"
  by (simp add: clean_source_def Let_def)

lemma inject_biothing_type_others:
  "control (inject_biothing_type self opts) = control opts"
  "esqb (inject_biothing_type self opts) = esqb opts"
  "es (inject_biothing_type self opts) = es opts"
  "map_of (transform (inject_biothing_type self opts)) ''biothing_type''
     = Some (PStr (biothing_type self))"
  by (simp_all add: inject_biothing_type_def map_of_dd_setattr)

lemma inject_biothing_type_fixed:
  "map_of (transform opts) ''biothing_type'' = Some (PStr (biothing_type self))
   \<Longrightarrow> inject_biothing_type self opts = opts"
  by (simp add: inject_biothing_type_def dd_setattr_present)

lemma inject_templates_Inr:
  assumes "inject_templates self opts = (Inr opts' :: 'r exn + options)"
  shows "control opts' = control opts"
    and "esqb opts' = esqb opts"
    and "es opts' = es opts"
    and "request_method self \<noteq> ''POST'' \<Longrightarrow> opts' = opts"
    and "request_method self = ''POST'' \<Longrightarrow>
          \<exists>qs. py_iter (py_or (dd_getattr (esqb opts) ''ids'') (dd_getattr (esqb opts) ''q''))
                  = (Inr qs :: 'r exn + pyval list)
             \<and> transform opts' =
                    dd_setattr ''template_hit'' (PDict [])
                      (dd_setattr ''template_miss'' (PDict [(''notfound'', PBool True)])
                        (dd_setattr ''templates'' (PList (map query_template qs))
                          (transform opts)))"
  using assms
  by (auto simp: inject_templates_def Let_def split: if_splits sum.splits)

lemma inject_templates_fixed:
  assumes "request_method self = ''POST'' \<Longrightarrow>
        py_iter (py_or (dd_getattr (esqb opts) ''ids'') (dd_getattr (esqb opts) ''q''))
           = (Inr qs :: 'r exn + pyval list)
        \<and> map_of (transform opts) ''templates'' = Some (PList (map query_template qs))
        \<and> map_of (transform opts) ''template_miss'' = Some (PDict [(''notfound'', PBool True)])
        \<and> map_of (transform opts) ''template_hit'' = Some (PDict [])"
  shows "inject_templates self opts = (Inr opts :: 'r exn + options)"
  using assms
  by (auto simp: inject_templates_def Let_def dd_setattr_present)

lemma inject_templates_raises:
  "inject_templates self opts = Inl e \<Longrightarrow> e = TypeError"
  by (auto simp: inject_templates_def Let_def split: if_splits sum.splits dest: py_iter_raises)

section \<open>The cleaner as a whole\<close>

lemma get_cleaned_options_Inr:
  assumes "get_cleaned_options self opts = (Inr opts' :: 'r exn + options)"
  obtains opts3 where
    "clean_source (clean_fetch_all (clean_esqb opts)) = (Inr opts3 :: 'r exn + options)"
    "inject_templates self (inject_biothing_type self opts3) = (Inr opts' :: 'r exn + options)"
  using assms by (auto simp: get_cleaned_options_def split: sum.splits)

lemma get_cleaned_options_control:
  "get_cleaned_options self opts = (Inr opts' :: 'r exn + options)
   \<Longrightarrow> control opts' = control opts"
  by (erule get_cleaned_options_Inr)
     (simp add: inject_templates_Inr(1) inject_biothing_type_others clean_source_Inr(1)
        clean_fetch_all_others clean_esqb_others)

lemma get_cleaned_options_esqb:
  assumes "get_cleaned_options self opts = (Inr opts' :: 'r exn + options)"
  shows "esqb opts' = esqb (clean_esqb opts)"
  using assms
  by (elim get_cleaned_options_Inr)
     (simp add: inject_templates_Inr(2) inject_biothing_type_others clean_source_Inr(2)
        clean_fetch_all_others)

text \<open>
  The only exception that leaves the cleaner is a \<^verbatim>\<open>TypeError\<close>: from \<^verbatim>\<open>'all' in\<close> on
  a source filter that is true but no container, or from iterating query terms that are
  no iterable. \<^verbatim>\<open>pop('_source')\<close> never raises, the key being there when it is reached.
\<close>

lemma get_cleaned_options_raises:
  "get_cleaned_options self opts = Inl e \<Longrightarrow> e = TypeError"
  by (auto simp: get_cleaned_options_def split: sum.splits
      dest: clean_source_raises inject_templates_raises)

lemma get_cleaned_options_returns:
  assumes "\<not> truthy (dd_getattr (es opts) ''_source'')
           \<or> py_in ''all'' (dd_getattr (es opts) ''_source'') \<noteq> (Inl TypeError :: 'r exn + bool)"
    and "request_method self = ''POST'' \<Longrightarrow>
         py_iter (py_or (dd_getattr (esqb opts) ''ids'') (dd_getattr (esqb opts) ''q''))
           \<noteq> (Inl TypeError :: 'r exn + pyval list)"
  shows "\<exists>opts'. get_cleaned_options self opts = (Inr opts' :: 'r exn + options)"
proof -
  let ?o2 = "clean_fetch_all (clean_esqb opts)"
  have src: "dd_getattr (es ?o2) ''_source'' = dd_getattr (es opts) ''_source''"
    by (simp add: dd_getattr_def clean_fetch_all_others clean_esqb_others)
  have "\<exists>opts3. clean_source ?o2 = (Inr opts3 :: 'r exn + options)"
  proof (cases "clean_source ?o2 :: 'r exn + options")
    case (Inl e)
    then have "truthy (dd_getattr (es opts) ''_source'')
        \<and> py_in ''all'' (dd_getattr (es opts) ''_source'') = (Inl e :: 'r exn + bool)"
      using clean_source_Inl[of ?o2 e] by (simp add: src)
    with assms(1) py_in_raises show ?thesis by metis
  next
    case (Inr opts3)
    then show ?thesis by blast
  qed
  then obtain opts3 where c3: "clean_source ?o2 = (Inr opts3 :: 'r exn + options)" ..
  let ?o4 = "inject_biothing_type self opts3"
  have esqb4: "esqb ?o4 = esqb (clean_esqb opts)"
    by (simp add: inject_biothing_type_others clean_source_Inr(2)[OF c3] clean_fetch_all_others)
  have q4: "py_or (dd_getattr (esqb ?o4) ''ids'') (dd_getattr (esqb ?o4) ''q'')
          = py_or (dd_getattr (esqb opts) ''ids'') (dd_getattr (esqb opts) ''q'')"
    unfolding esqb4 by (simp add: dd_getattr_def clean_esqb_others)
  have "\<exists>opts'. inject_templates self ?o4 = (Inr opts' :: 'r exn + options)"
  proof (cases "inject_templates self ?o4 :: 'r exn + options")
    case (Inl e)
    then have "request_method self = ''POST''
       \<and> py_iter (py_or (dd_getattr (esqb opts) ''ids'') (dd_getattr (esqb opts) ''q''))
         = (Inl e :: 'r exn + pyval list)"
      unfolding inject_templates_def Let_def q4
      by (auto split: if_splits sum.splits)
    with assms(2) py_iter_raises show ?thesis by metis
  next
    case (Inr opts')
    then show ?thesis by blast
  qed
  then show ?thesis
    by (simp add: get_cleaned_options_def c3)
qed

text \<open>
  When the source filter of a cleaned option set is \<open>True\<close>, cleaning again stops at
  \<^verbatim>\<open>'all' in True\<close>.
\<close>

lemma recleaning_of_True:
  assumes ok: "get_cleaned_options self opts = (Inr opts' :: 'r exn + options)"
    and src: "dd_getattr (es opts') ''_source'' = PBool True"
  shows "get_cleaned_options self opts' = (Inl TypeError :: 'r exn + options)"
proof -
  have "dd_getattr (es (clean_fetch_all (clean_esqb opts'))) ''_source'' = PBool True"
    using src by (simp add: dd_getattr_def clean_fetch_all_others clean_esqb_others)
  then show ?thesis
    by (simp add: get_cleaned_options_def clean_source_of_True)
qed

lemmas cleaner_defs =
  get_cleaned_options_def clean_esqb_def clean_fetch_all_def clean_source_def
  inject_biothing_type_def inject_templates_def query_template_def py_or_def
  dd_getattr_def dd_pop_default_def dd_pop_def dd_setattr_def

section \<open>Properties of the option cleaner\<close>

text \<open>
  C6. Cleaning the option set
  \<open>{control: {raw: false, rawquery: false}, esqb: {aggs: false, facet_size: 10},
    es: {fetch_all: true, sort: "x", size: 5}, transform: {}}\<close>
  for the biothing type "gene" on a GET request gives
  \<open>{control: {raw: false, rawquery: false}, esqb: {aggs: false}, es: {fetch_all: true},
    transform: {biothing_type: "gene"}}\<close>: the facet size goes because aggregation is
  off, sort and size go because fetch_all is set, the biothing type is injected and the
  control stage is not touched.
\<close>

theorem clean_example_gene_get:
  "get_cleaned_options
     \<lparr>biothing_type = ''gene'', request_method = ''GET'', self_reason = ''OK''\<rparr>
     \<lparr>control = [(''raw'', PBool False), (''rawquery'', PBool False)],
      esqb = [(''aggs'', PBool False), (''facet_size'', PInt 10)],
      es = [(''fetch_all'', PBool True), (''sort'', PStr ''x''), (''size'', PInt 5)],
      transform = []\<rparr>
   = (Inr
     \<lparr>control = [(''raw'', PBool False), (''rawquery'', PBool False)],
      esqb = [(''aggs'', PBool False)],
      es = [(''fetch_all'', PBool True)],
      transform = [(''biothing_type'', PStr ''gene'')]\<rparr> :: pyval exn + options)"
  by (simp add: cleaner_defs)

text \<open>
  C2, as stated: cleaning a cleaned option set again gives the same option set, also
  when the first pass has replaced a source filter holding "all" by \<open>True\<close>. This fails:
  the second pass reaches \<^verbatim>\<open>'all' in True\<close>, which raises a \<^verbatim>\<open>TypeError\<close>. The
  option set with the source filter \<open>["all"]\<close> is cleaned once, and cleaning the result
  does not return.
\<close>

theorem recleaning_all_counterexample:
  "get_cleaned_options
     \<lparr>biothing_type = ''gene'', request_method = ''GET'', self_reason = ''OK''\<rparr>
     \<lparr>control = [], esqb = [], es = [(''_source'', PList [PStr ''all''])], transform = []\<rparr>
   = (Inr
     \<lparr>control = [], esqb = [], es = [(''_source'', PBool True)],
      transform = [(''biothing_type'', PStr ''gene'')]\<rparr> :: pyval exn + options)
   \<and> get_cleaned_options
     \<lparr>biothing_type = ''gene'', request_method = ''GET'', self_reason = ''OK''\<rparr>
     \<lparr>control = [], esqb = [], es = [(''_source'', PBool True)],
      transform = [(''biothing_type'', PStr ''gene'')]\<rparr>
   = (Inl TypeError :: pyval exn + options)"
  by (simp add: cleaner_defs)

text \<open>
  C2, amended: for every option set that the cleaner cleans without an exception and
  whose cleaned source filter is not the boolean \<open>True\<close>, applying the cleaner again to
  the cleaned option set (same biothing type and request method) returns that same
  option set: the second application is a no-op.
\<close>

theorem recleaning_is_noop:
  assumes ok: "get_cleaned_options self opts = (Inr opts' :: 'r exn + options)"
    and src: "dd_getattr (es opts') ''_source'' \<noteq> PBool True"
  shows "get_cleaned_options self opts' = (Inr opts' :: 'r exn + options)"
proof -
  from ok obtain opts3 where
    c3: "clean_source (clean_fetch_all (clean_esqb opts)) = (Inr opts3 :: 'r exn + options)" and
    c5: "inject_templates self (inject_biothing_type self opts3) = (Inr opts' :: 'r exn + options)"
    by (rule get_cleaned_options_Inr)
  let ?o1 = "clean_esqb opts"
  let ?o4 = "inject_biothing_type self opts3"
  have esqb': "esqb opts' = esqb ?o1"
    using ok by (rule get_cleaned_options_esqb)
  have es': "es opts' = es opts3"
    using inject_templates_Inr(3)[OF c5] by (simp add: inject_biothing_type_others)
  have s1: "clean_esqb opts' = opts'"
    using clean_esqb_settled[of opts] by (intro clean_esqb_fixed) (simp add: esqb')
  have s2: "clean_fetch_all opts' = opts'"
    using clean_fetch_all_settled[of ?o1] clean_source_Inr(4)[OF c3]
    by (intro clean_fetch_all_fixed) (simp add: es' dd_getattr_def)
  have s3: "clean_source opts' = (Inr opts' :: 'r exn + options)"
    using clean_source_Inr(5)[OF c3] src
    by (intro clean_source_fixed) (auto simp: es')
  have bt: "map_of (transform opts') ''biothing_type'' = Some (PStr (biothing_type self))"
  proof (cases "request_method self = ''POST''")
    case True
    from inject_templates_Inr(5)[OF c5 True] show ?thesis
      by (auto simp: map_of_dd_setattr inject_biothing_type_others)
  next
    case False
    from inject_templates_Inr(4)[OF c5 False] show ?thesis
      by (simp add: inject_biothing_type_others)
  qed
  have s4: "inject_biothing_type self opts' = opts'"
    using bt by (rule inject_biothing_type_fixed)
  have s5: "inject_templates self opts' = (Inr opts' :: 'r exn + options)"
  proof (cases "request_method self = ''POST''")
    case True
    from inject_templates_Inr(5)[OF c5 True] obtain qs where
      qs: "py_iter (py_or (dd_getattr (esqb ?o4) ''ids'') (dd_getattr (esqb ?o4) ''q''))
             = (Inr qs :: 'r exn + pyval list)" and
      tr: "transform opts' =
             dd_setattr ''template_hit'' (PDict [])
               (dd_setattr ''template_miss'' (PDict [(''notfound'', PBool True)])
                 (dd_setattr ''templates'' (PList (map query_template qs)) (transform ?o4)))"
      by blast
    have "esqb opts' = esqb ?o4"
      using inject_templates_Inr(2)[OF c5] .
    with qs tr show ?thesis
      by (intro inject_templates_fixed[where qs = qs]) (simp add: map_of_dd_setattr)
  next
    case False
    then show ?thesis by (simp add: inject_templates_def)
  qed
  show ?thesis
    by (simp add: get_cleaned_options_def s1 s2 s3 s4 s5)
qed

theorem recleaning_is_noop_witness:
  "get_cleaned_options
     \<lparr>biothing_type = ''gene'', request_method = ''POST'', self_reason = ''OK''\<rparr>
     \<lparr>control = [(''raw'', PBool False)],
      esqb = [(''ids'', PList [PStr ''1017'', PStr ''1018'']), (''facet_size'', PInt 10)],
      es = [(''_source'', PList [PStr ''symbol'']), (''fetch_all'', PBool True),
            (''size'', PInt 5)],
      transform = []\<rparr>
   = (Inr
     \<lparr>control = [(''raw'', PBool False)],
      esqb = [(''ids'', PList [PStr ''1017'', PStr ''1018''])],
      es = [(''_source'', PList [PStr ''symbol'']), (''fetch_all'', PBool True)],
      transform = [(''biothing_type'', PStr ''gene''),
                   (''templates'', PList [PDict [(''query'', PStr ''1017'')],
                                          PDict [(''query'', PStr ''1018'')]]),
                   (''template_miss'', PDict [(''notfound'', PBool True)]),
                   (''template_hit'', PDict [])]\<rparr> :: pyval exn + options)
   \<and> dd_getattr [(''_source'', PList [PStr ''symbol'']), (''fetch_all'', PBool True)]
         ''_source'' \<noteq> PBool True
   \<and> get_cleaned_options
     \<lparr>biothing_type = ''gene'', request_method = ''POST'', self_reason = ''OK''\<rparr>
     \<lparr>control = [(''raw'', PBool False)],
      esqb = [(''ids'', PList [PStr ''1017'', PStr ''1018''])],
      es = [(''_source'', PList [PStr ''symbol'']), (''fetch_all'', PBool True)],
      transform = [(''biothing_type'', PStr ''gene''),
                   (''templates'', PList [PDict [(''query'', PStr ''1017'')],
                                          PDict [(''query'', PStr ''1018'')]]),
                   (''template_miss'', PDict [(''notfound'', PBool True)]),
                   (''template_hit'', PDict [])]\<rparr>
   = (Inr
     \<lparr>control = [(''raw'', PBool False)],
      esqb = [(''ids'', PList [PStr ''1017'', PStr ''1018''])],
      es = [(''_source'', PList [PStr ''symbol'']), (''fetch_all'', PBool True)],
      transform = [(''biothing_type'', PStr ''gene''),
                   (''templates'', PList [PDict [(''query'', PStr ''1017'')],
                                          PDict [(''query'', PStr ''1018'')]]),
                   (''template_miss'', PDict [(''notfound'', PBool True)]),
                   (''template_hit'', PDict [])]\<rparr> :: pyval exn + options)"
  (is "?first \<and> ?src \<and> ?second")
proof -
  have a: ?first by (simp add: cleaner_defs)
  have b: ?src by (simp add: dd_getattr_def)
  have ?second using recleaning_is_noop [OF a] b by simp
  with a b show ?thesis by blast
qed

text \<open>
  C7. For every POST request whose query terms (\<^verbatim>\<open>ids or q\<close> of the query-build
  stage) are a sequence of N terms, the cleaner returns, and the cleaned transform stage
  holds exactly N templates, in the order of the terms, the i-th being
  \<open>{query: term i}\<close>; it also holds the miss template \<open>{notfound: true}\<close> and the empty
  hit template. The one condition on the rest of the option set is that the earlier
  block of the cleaner does not raise: the source filter is false in Python's sense or
  a container, so that \<^verbatim>\<open>'all' in options.es._source\<close> is no \<^verbatim>\<open>TypeError\<close>.
\<close>

theorem post_templates_in_order:
  assumes post: "request_method self = ''POST''"
    and terms: "py_or (dd_getattr (esqb opts) ''ids'') (dd_getattr (esqb opts) ''q'') = PList terms"
    and src: "\<not> truthy (dd_getattr (es opts) ''_source'')
              \<or> py_in ''all'' (dd_getattr (es opts) ''_source'') \<noteq> (Inl TypeError :: 'r exn + bool)"
  shows "\<exists>opts'. get_cleaned_options self opts = (Inr opts' :: 'r exn + options)
       \<and> (\<exists>templates. map_of (transform opts') ''templates'' = Some (PList templates)
            \<and> length templates = length terms
            \<and> (\<forall>i < length terms. templates ! i = PDict [(''query'', terms ! i)]))
       \<and> map_of (transform opts') ''template_miss'' = Some (PDict [(''notfound'', PBool True)])
       \<and> map_of (transform opts') ''template_hit'' = Some (PDict [])"
proof -
  have iter: "py_iter (py_or (dd_getattr (esqb opts) ''ids'') (dd_getattr (esqb opts) ''q''))
                \<noteq> (Inl TypeError :: 'r exn + pyval list)"
    by (simp add: terms)
  from get_cleaned_options_returns [of opts self, OF src iter]
  obtain opts' where ok: "get_cleaned_options self opts = (Inr opts' :: 'r exn + options)"
    by blast
  from ok obtain opts3 where
    c3: "clean_source (clean_fetch_all (clean_esqb opts)) = (Inr opts3 :: 'r exn + options)" and
    c5: "inject_templates self (inject_biothing_type self opts3) = (Inr opts' :: 'r exn + options)"
    by (rule get_cleaned_options_Inr)
  let ?o4 = "inject_biothing_type self opts3"
  have "esqb ?o4 = esqb (clean_esqb opts)"
    by (simp add: inject_biothing_type_others clean_source_Inr(2)[OF c3] clean_fetch_all_others)
  then have q4: "py_or (dd_getattr (esqb ?o4) ''ids'') (dd_getattr (esqb ?o4) ''q'') = PList terms"
    using terms by (simp add: dd_getattr_def clean_esqb_others)
  from inject_templates_Inr(5)[OF c5 post] q4
  have tr: "transform opts' =
             dd_setattr ''template_hit'' (PDict [])
               (dd_setattr ''template_miss'' (PDict [(''notfound'', PBool True)])
                 (dd_setattr ''templates'' (PList (map query_template terms)) (transform ?o4)))"
    by auto
  have "map_of (transform opts') ''templates'' = Some (PList (map query_template terms))"
    by (simp add: tr map_of_dd_setattr)
  moreover have "length (map query_template terms) = length terms"
    by simp
  moreover have "\<forall>i < length terms. map query_template terms ! i = PDict [(''query'', terms ! i)]"
    by (simp add: query_template_def)
  moreover have "map_of (transform opts') ''template_miss'' = Some (PDict [(''notfound'', PBool True)])"
    by (simp add: tr map_of_dd_setattr)
  moreover have "map_of (transform opts') ''template_hit'' = Some (PDict [])"
    by (simp add: tr map_of_dd_setattr)
  ultimately show ?thesis using ok by blast
qed

theorem post_templates_in_order_witness:
  "request_method \<lparr>biothing_type = ''gene'', request_method = ''POST'', self_reason = ''OK''\<rparr>
     = ''POST''
   \<and> py_or (dd_getattr [(''q'', PList [PStr ''cdk2'', PStr ''tp53'', PStr ''cdk2''])] ''ids'')
            (dd_getattr [(''q'', PList [PStr ''cdk2'', PStr ''tp53'', PStr ''cdk2''])] ''q'')
     = PList [PStr ''cdk2'', PStr ''tp53'', PStr ''cdk2'']
   \<and> py_in ''all'' (dd_getattr [(''_source'', PList [PStr ''symbol''])] ''_source'')
     \<noteq> (Inl TypeError :: pyval exn + bool)
   \<and> get_cleaned_options
       \<lparr>biothing_type = ''gene'', request_method = ''POST'', self_reason = ''OK''\<rparr>
       \<lparr>control = [], esqb = [(''q'', PList [PStr ''cdk2'', PStr ''tp53'', PStr ''cdk2''])],
        es = [(''_source'', PList [PStr ''symbol''])], transform = []\<rparr>
     = (Inr
       \<lparr>control = [], esqb = [(''q'', PList [PStr ''cdk2'', PStr ''tp53'', PStr ''cdk2''])],
        es = [(''_source'', PList [PStr ''symbol''])],
        transform = [(''biothing_type'', PStr ''gene''),
                     (''templates'', PList [PDict [(''query'', PStr ''cdk2'')],
                                            PDict [(''query'', PStr ''tp53'')],
                                            PDict [(''query'', PStr ''cdk2'')]]),
                     (''template_miss'', PDict [(''notfound'', PBool True)]),
                     (''template_hit'', PDict [])]\<rparr> :: pyval exn + options)
   \<and> (\<exists>opts'.
         get_cleaned_options
           \<lparr>biothing_type = ''gene'', request_method = ''POST'', self_reason = ''OK''\<rparr>
           \<lparr>control = [], esqb = [(''q'', PList [PStr ''cdk2'', PStr ''tp53'', PStr ''cdk2''])],
            es = [(''_source'', PList [PStr ''symbol''])], transform = []\<rparr>
         = (Inr opts' :: pyval exn + options)
         \<and> (\<exists>templates.
               map_of (transform opts') ''templates'' = Some (PList templates)
               \<and> length templates = 3
               \<and> (\<forall>i < 3. templates ! i
                      = PDict [(''query'', [PStr ''cdk2'', PStr ''tp53'', PStr ''cdk2''] ! i)]))
         \<and> map_of (transform opts') ''template_miss'' = Some (PDict [(''notfound'', PBool True)])
         \<and> map_of (transform opts') ''template_hit'' = Some (PDict []))"
  (is "?post \<and> ?terms \<and> ?src \<and> ?run \<and> ?templates")
proof -
  have a: ?post by simp
  have b: ?terms by (simp add: py_or_def dd_getattr_def)
  have c: ?src by (simp add: dd_getattr_def)
  have d: ?run (is "get_cleaned_options ?H ?G = _") by (simp add: cleaner_defs)
  have b': "py_or (dd_getattr (esqb ?G) ''ids'') (dd_getattr (esqb ?G) ''q'')
              = PList [PStr ''cdk2'', PStr ''tp53'', PStr ''cdk2'']"
    using b by simp
  have c': "\<not> truthy (dd_getattr (es ?G) ''_source'')
            \<or> py_in ''all'' (dd_getattr (es ?G) ''_source'') \<noteq> (Inl TypeError :: pyval exn + bool)"
    using c by simp
  have ?templates using post_templates_in_order [OF a b' c']
    by (simp add: eval_nat_numeral)
  with a b c d show ?thesis by blast
qed





section \<open>Properties of the pipeline\<close>

text \<open>
  When the options pass the cleaner, a run with \<^verbatim>\<open>rawquery\<close> off reaches the backend
  as soon as the builder returns, and a run reaches the builder in any case.
\<close>

lemma execute_pipeline_cleaned:
  assumes "get_cleaned_options self grouped_options = (Inr opts :: 'r exn + options)"
  shows "execute_pipeline self (ws :: ('q, 'r) web_settings) grouped_options =
     (let built = query_builder_build ws (esqb opts) in
      case built of
        Inl e \<Rightarrow> ([Build_call built], Inl e)
      | Inr query0 \<Rightarrow>
     (case pre_query_hook ws opts query0 of
        Inl e \<Rightarrow> ([Build_call built], Inl e)
      | Inr query \<Rightarrow>
     (let executed = query_backend_execute ws query (es opts) (biothing_type self) in
      case executed of
        Inl e \<Rightarrow> ([Build_call built, Execute_call executed], Inl e)
      | Inr res0 \<Rightarrow>
     (case pre_transform_hook opts res0 of
        Inl e \<Rightarrow> ([Build_call built, Execute_call executed], Inl e)
      | Inr res1 \<Rightarrow>
     (let transformed = query_transform_transform ws res1 (transform opts) in
      case transformed of
        Inl e \<Rightarrow> ([Build_call built, Execute_call executed, Transform_call transformed], Inl e)
      | Inr res \<Rightarrow>
          ([Build_call built, Execute_call executed, Transform_call transformed],
           Inr res))))))"
  using assms
  by (simp add: execute_pipeline_def pre_query_builder_hook_def pre_finish_hook_def Let_def
      split: sum.splits)

text \<open>
  C1, as stated: in every run in which \<^verbatim>\<open>raw\<close> is true the response is the raw
  result of the backend. This fails when \<^verbatim>\<open>rawquery\<close> is true as well: the pre-query
  hook comes first and finishes with the \<^verbatim>\<open>to_dict\<close> form of the query, the backend
  is not called, and the response is not what the backend would have returned.
\<close>

theorem raw_with_rawquery_counterexample:
  "truthy (dd_getattr [(''raw'', PBool True), (''rawquery'', PBool True)] ''raw'')
   \<and> execute_pipeline
       \<lparr>biothing_type = ''gene'', request_method = ''GET'', self_reason = ''OK''\<rparr>
       echo_settings
       \<lparr>control = [(''raw'', PBool True), (''rawquery'', PBool True)],
        esqb = [(''q'', PStr ''cdk2'')], es = [], transform = []\<rparr>
     = ([Build_call (Inr (PStr ''cdk2''))], Inl (Finish (PDict [(''query'', PStr ''cdk2'')])))
   \<and> emitted (Inl (Finish (PDict [(''query'', PStr ''cdk2'')])) :: pyval exn + pyval)
     = Some (PDict [(''query'', PStr ''cdk2'')])
   \<and> query_backend_execute echo_settings (PStr ''cdk2'') [] ''gene''
     = Inr (PDict [(''hits'', PList [PStr ''cdk2''])])
   \<and> PDict [(''query'', PStr ''cdk2'')] \<noteq> PDict [(''hits'', PList [PStr ''cdk2''])]"
  by (simp add: execute_pipeline_def echo_settings_def cleaner_defs
      pre_query_builder_hook_def pre_query_hook_def)

text \<open>
  C1, amended: in every run of the pipeline in which the control option \<^verbatim>\<open>raw\<close> is
  true, the result transformer is never called. If moreover \<^verbatim>\<open>rawquery\<close> is not true
  and the options pass the cleaner (the source filter is false in Python's sense or a
  container, and on a POST request the query terms are iterable), then the cleaner
  returns, and whenever the builder returns a query for the cleaned query-build options
  and the backend returns a result for that query, the run consists of exactly these two
  calls and its response is that result of the backend, as it is: the pre-transform hook
  finishes with it unconverted.
\<close>

theorem raw_short_circuit:
  assumes raw: "truthy (dd_getattr (control grouped_options) ''raw'')"
  shows "\<not> list_ex is_transform_call
            (fst (execute_pipeline self (ws :: ('q, 'r) web_settings) grouped_options))
       \<and> (\<not> truthy (dd_getattr (control grouped_options) ''rawquery'')
          \<and> (\<not> truthy (dd_getattr (es grouped_options) ''_source'')
              \<or> py_in ''all'' (dd_getattr (es grouped_options) ''_source'')
                  \<noteq> (Inl TypeError :: 'r exn + bool))
          \<and> (request_method self = ''POST'' \<longrightarrow>
                py_iter (py_or (dd_getattr (esqb grouped_options) ''ids'')
                               (dd_getattr (esqb grouped_options) ''q''))
                  \<noteq> (Inl TypeError :: 'r exn + pyval list))
          \<longrightarrow> (\<exists>opts. get_cleaned_options self grouped_options = (Inr opts :: 'r exn + options)
                \<and> (\<forall>query res.
                      query_builder_build ws (esqb opts) = Inr query
                      \<and> query_backend_execute ws query (es opts) (biothing_type self) = Inr res
                      \<longrightarrow> execute_pipeline self ws grouped_options
                            = ([Build_call (Inr query), Execute_call (Inr res)],
                               Inl (Finish res))
                          \<and> emitted (snd (execute_pipeline self ws grouped_options))
                            = Some res)))"
proof (intro conjI impI)
  show "\<not> list_ex is_transform_call (fst (execute_pipeline self ws grouped_options))"
    using raw
    by (auto simp: execute_pipeline_def Let_def pre_query_builder_hook_def
          pre_transform_hook_def
        dest!: get_cleaned_options_control split: sum.splits)
next
  assume conds: "\<not> truthy (dd_getattr (control grouped_options) ''rawquery'')
          \<and> (\<not> truthy (dd_getattr (es grouped_options) ''_source'')
              \<or> py_in ''all'' (dd_getattr (es grouped_options) ''_source'')
                  \<noteq> (Inl TypeError :: 'r exn + bool))
          \<and> (request_method self = ''POST'' \<longrightarrow>
                py_iter (py_or (dd_getattr (esqb grouped_options) ''ids'')
                               (dd_getattr (esqb grouped_options) ''q''))
                  \<noteq> (Inl TypeError :: 'r exn + pyval list))"
  then obtain opts where
    ok: "get_cleaned_options self grouped_options = (Inr opts :: 'r exn + options)"
    using get_cleaned_options_returns [of grouped_options self] by blast
  have ctl: "control opts = control grouped_options"
    using ok by (rule get_cleaned_options_control)
  have "\<forall>query res.
          query_builder_build ws (esqb opts) = Inr query
          \<and> query_backend_execute ws query (es opts) (biothing_type self) = Inr res
          \<longrightarrow> execute_pipeline self ws grouped_options
                = ([Build_call (Inr query), Execute_call (Inr res)], Inl (Finish res))
              \<and> emitted (snd (execute_pipeline self ws grouped_options)) = Some res"
    using raw conds
    by (simp add: execute_pipeline_cleaned [OF ok] pre_query_hook_def pre_transform_hook_def ctl)
  with ok show "\<exists>opts. get_cleaned_options self grouped_options = (Inr opts :: 'r exn + options)
                \<and> (\<forall>query res.
                      query_builder_build ws (esqb opts) = Inr query
                      \<and> query_backend_execute ws query (es opts) (biothing_type self) = Inr res
                      \<longrightarrow> execute_pipeline self ws grouped_options
                            = ([Build_call (Inr query), Execute_call (Inr res)],
                               Inl (Finish res))
                          \<and> emitted (snd (execute_pipeline self ws grouped_options))
                            = Some res)"
    by blast
qed

theorem raw_short_circuit_witness:
  "truthy (dd_getattr [(''raw'', PBool True), (''rawquery'', PBool False)] ''raw'')
   \<and> \<not> truthy (dd_getattr [(''raw'', PBool True), (''rawquery'', PBool False)] ''rawquery'')
   \<and> py_in ''all'' (dd_getattr [(''_source'', PList [PStr ''symbol''])] ''_source'')
       \<noteq> (Inl TypeError :: pyval exn + bool)
   \<and> py_iter (py_or (dd_getattr [(''q'', PList [PStr ''cdk2'', PStr ''tp53''])] ''ids'')
                    (dd_getattr [(''q'', PList [PStr ''cdk2'', PStr ''tp53''])] ''q''))
       \<noteq> (Inl TypeError :: pyval exn + pyval list)
   \<and> execute_pipeline
       \<lparr>biothing_type = ''gene'', request_method = ''POST'', self_reason = ''OK''\<rparr>
       echo_settings
       \<lparr>control = [(''raw'', PBool True), (''rawquery'', PBool False)],
        esqb = [(''q'', PList [PStr ''cdk2'', PStr ''tp53''])],
        es = [(''_source'', PList [PStr ''symbol''])], transform = []\<rparr>
     = ([Build_call (Inr (PList [PStr ''cdk2'', PStr ''tp53''])),
         Execute_call (Inr (PDict [(''hits'', PList [PList [PStr ''cdk2'', PStr ''tp53'']])]))],
        Inl (Finish (PDict [(''hits'', PList [PList [PStr ''cdk2'', PStr ''tp53'']])])))
   \<and> emitted (snd (execute_pipeline
       \<lparr>biothing_type = ''gene'', request_method = ''POST'', self_reason = ''OK''\<rparr>
       echo_settings
       \<lparr>control = [(''raw'', PBool True), (''rawquery'', PBool False)],
        esqb = [(''q'', PList [PStr ''cdk2'', PStr ''tp53''])],
        es = [(''_source'', PList [PStr ''symbol''])], transform = []\<rparr>))
     = Some (PDict [(''hits'', PList [PList [PStr ''cdk2'', PStr ''tp53'']])])
   \<and> \<not> list_ex is_transform_call (fst (execute_pipeline
       \<lparr>biothing_type = ''gene'', request_method = ''POST'', self_reason = ''OK''\<rparr>
       echo_settings
       \<lparr>control = [(''raw'', PBool True), (''rawquery'', PBool False)],
        esqb = [(''q'', PList [PStr ''cdk2'', PStr ''tp53''])],
        es = [(''_source'', PList [PStr ''symbol''])], transform = []\<rparr>))"
  (is "?raw \<and> ?norawquery \<and> ?src \<and> ?iter \<and> ?run \<and> ?response \<and> ?no_transform")
proof -
  let ?H = "\<lparr>biothing_type = ''gene'', request_method = ''POST'', self_reason = ''OK''\<rparr>"
  let ?G = "\<lparr>control = [(''raw'', PBool True), (''rawquery'', PBool False)],
        esqb = [(''q'', PList [PStr ''cdk2'', PStr ''tp53''])],
        es = [(''_source'', PList [PStr ''symbol''])], transform = []\<rparr>"
  let ?Q = "PList [PStr ''cdk2'', PStr ''tp53'']"
  let ?R = "PDict [(''hits'', PList [?Q])]"
  have a: ?raw by (simp add: dd_getattr_def)
  have b: ?norawquery by (simp add: dd_getattr_def)
  have c: ?src by (simp add: dd_getattr_def)
  have d: ?iter by (simp add: dd_getattr_def py_or_def)
  have a': "truthy (dd_getattr (control ?G) ''raw'')" using a by simp
  note inst = raw_short_circuit [OF a', of ?H echo_settings]
  from inst have nt: ?no_transform by blast
  have c1: "\<not> truthy (dd_getattr (control ?G) ''rawquery'')" using b by simp
  have c2: "\<not> truthy (dd_getattr (es ?G) ''_source'')
            \<or> py_in ''all'' (dd_getattr (es ?G) ''_source'') \<noteq> (Inl TypeError :: pyval exn + bool)"
    using c by simp
  have c3: "request_method ?H = ''POST'' \<longrightarrow>
            py_iter (py_or (dd_getattr (esqb ?G) ''ids'') (dd_getattr (esqb ?G) ''q''))
              \<noteq> (Inl TypeError :: pyval exn + pyval list)"
    using d by simp
  from inst c1 c2 c3 obtain opts where
    ok: "get_cleaned_options ?H ?G = (Inr opts :: pyval exn + options)" and
    run: "\<forall>query res.
            query_builder_build echo_settings (esqb opts) = Inr query
            \<and> query_backend_execute echo_settings query (es opts) (biothing_type ?H) = Inr res
            \<longrightarrow> execute_pipeline ?H echo_settings ?G
                  = ([Build_call (Inr query), Execute_call (Inr res)], Inl (Finish res))
                \<and> emitted (snd (execute_pipeline ?H echo_settings ?G)) = Some res"
    by blast
  have e: "esqb opts = [(''q'', ?Q)]"
    using ok by (auto simp: cleaner_defs)
  have q: "query_builder_build echo_settings (esqb opts) = Inr ?Q"
    by (simp add: e echo_settings_def dd_getattr_def)
  have r: "query_backend_execute echo_settings ?Q (es opts) (biothing_type ?H) = Inr ?R"
    by (simp add: echo_settings_def)
  from run q r have "?run \<and> ?response" by blast
  with a b c d nt show ?thesis by blast
qed

text \<open>
  C4. In every run of the pipeline in which the control option \<^verbatim>\<open>rawquery\<close> is true,
  the backend is never called. When the options pass the cleaner (the source filter is
  false in Python's sense or a container, and on a POST request the query terms are
  iterable), the cleaner returns, and whenever the builder returns a query for the
  cleaned query-build options, the run consists of that one call and its response is
  the \<^verbatim>\<open>to_dict\<close> form of the built query.
\<close>

theorem rawquery_short_circuit:
  assumes rawquery: "truthy (dd_getattr (control grouped_options) ''rawquery'')"
  shows "\<not> list_ex is_execute_call
            (fst (execute_pipeline self (ws :: ('q, 'r) web_settings) grouped_options))
       \<and> ((\<not> truthy (dd_getattr (es grouped_options) ''_source'')
              \<or> py_in ''all'' (dd_getattr (es grouped_options) ''_source'')
                  \<noteq> (Inl TypeError :: 'r exn + bool))
          \<and> (request_method self = ''POST'' \<longrightarrow>
                py_iter (py_or (dd_getattr (esqb grouped_options) ''ids'')
                               (dd_getattr (esqb grouped_options) ''q''))
                  \<noteq> (Inl TypeError :: 'r exn + pyval list))
          \<longrightarrow> (\<exists>opts. get_cleaned_options self grouped_options = (Inr opts :: 'r exn + options)
                \<and> (\<forall>query.
                      query_builder_build ws (esqb opts) = Inr query
                      \<longrightarrow> execute_pipeline self ws grouped_options
                            = ([Build_call (Inr query)], Inl (Finish (query_to_dict ws query)))
                          \<and> emitted (snd (execute_pipeline self ws grouped_options))
                            = Some (query_to_dict ws query))))"
proof (intro conjI impI)
  show "\<not> list_ex is_execute_call (fst (execute_pipeline self ws grouped_options))"
    using rawquery
    by (auto simp: execute_pipeline_def Let_def pre_query_builder_hook_def pre_query_hook_def
        dest!: get_cleaned_options_control split: sum.splits)
next
  assume conds: "(\<not> truthy (dd_getattr (es grouped_options) ''_source'')
              \<or> py_in ''all'' (dd_getattr (es grouped_options) ''_source'')
                  \<noteq> (Inl TypeError :: 'r exn + bool))
          \<and> (request_method self = ''POST'' \<longrightarrow>
                py_iter (py_or (dd_getattr (esqb grouped_options) ''ids'')
                               (dd_getattr (esqb grouped_options) ''q''))
                  \<noteq> (Inl TypeError :: 'r exn + pyval list))"
  then obtain opts where
    ok: "get_cleaned_options self grouped_options = (Inr opts :: 'r exn + options)"
    using get_cleaned_options_returns [of grouped_options self] by blast
  have ctl: "control opts = control grouped_options"
    using ok by (rule get_cleaned_options_control)
  have "\<forall>query.
          query_builder_build ws (esqb opts) = Inr query
          \<longrightarrow> execute_pipeline self ws grouped_options
                = ([Build_call (Inr query)], Inl (Finish (query_to_dict ws query)))
              \<and> emitted (snd (execute_pipeline self ws grouped_options))
                = Some (query_to_dict ws query)"
    using rawquery
    by (simp add: execute_pipeline_cleaned [OF ok] pre_query_hook_def ctl)
  with ok show "\<exists>opts. get_cleaned_options self grouped_options = (Inr opts :: 'r exn + options)
                \<and> (\<forall>query.
                      query_builder_build ws (esqb opts) = Inr query
                      \<longrightarrow> execute_pipeline self ws grouped_options
                            = ([Build_call (Inr query)], Inl (Finish (query_to_dict ws query)))
                          \<and> emitted (snd (execute_pipeline self ws grouped_options))
                            = Some (query_to_dict ws query))"
    by blast
qed

theorem rawquery_short_circuit_witness:
  "truthy (dd_getattr [(''rawquery'', PBool True)] ''rawquery'')
   \<and> py_in ''all'' (dd_getattr [(''_source'', PList [PStr ''symbol''])] ''_source'')
       \<noteq> (Inl TypeError :: pyval exn + bool)
   \<and> py_iter (py_or (dd_getattr [(''q'', PList [PStr ''cdk2'', PStr ''tp53''])] ''ids'')
                    (dd_getattr [(''q'', PList [PStr ''cdk2'', PStr ''tp53''])] ''q''))
       \<noteq> (Inl TypeError :: pyval exn + pyval list)
   \<and> execute_pipeline
       \<lparr>biothing_type = ''gene'', request_method = ''POST'', self_reason = ''OK''\<rparr>
       echo_settings
       \<lparr>control = [(''rawquery'', PBool True)],
        esqb = [(''q'', PList [PStr ''cdk2'', PStr ''tp53''])],
        es = [(''_source'', PList [PStr ''symbol''])], transform = []\<rparr>
     = ([Build_call (Inr (PList [PStr ''cdk2'', PStr ''tp53'']))],
        Inl (Finish (PDict [(''query'', PList [PStr ''cdk2'', PStr ''tp53''])])))
   \<and> emitted (snd (execute_pipeline
       \<lparr>biothing_type = ''gene'', request_method = ''POST'', self_reason = ''OK''\<rparr>
       echo_settings
       \<lparr>control = [(''rawquery'', PBool True)],
        esqb = [(''q'', PList [PStr ''cdk2'', PStr ''tp53''])],
        es = [(''_source'', PList [PStr ''symbol''])], transform = []\<rparr>))
     = Some (PDict [(''query'', PList [PStr ''cdk2'', PStr ''tp53''])])
   \<and> \<not> list_ex is_execute_call (fst (execute_pipeline
       \<lparr>biothing_type = ''gene'', request_method = ''POST'', self_reason = ''OK''\<rparr>
       echo_settings
       \<lparr>control = [(''rawquery'', PBool True)],
        esqb = [(''q'', PList [PStr ''cdk2'', PStr ''tp53''])],
        es = [(''_source'', PList [PStr ''symbol''])], transform = []\<rparr>))"
  (is "?rawquery \<and> ?src \<and> ?iter \<and> ?run \<and> ?response \<and> ?no_execute")
proof -
  let ?H = "\<lparr>biothing_type = ''gene'', request_method = ''POST'', self_reason = ''OK''\<rparr>"
  let ?G = "\<lparr>control = [(''rawquery'', PBool True)],
        esqb = [(''q'', PList [PStr ''cdk2'', PStr ''tp53''])],
        es = [(''_source'', PList [PStr ''symbol''])], transform = []\<rparr>"
  let ?Q = "PList [PStr ''cdk2'', PStr ''tp53'']"
  have a: ?rawquery by (simp add: dd_getattr_def)
  have c: ?src by (simp add: dd_getattr_def)
  have d: ?iter by (simp add: dd_getattr_def py_or_def)
  have a': "truthy (dd_getattr (control ?G) ''rawquery'')" using a by simp
  note inst = rawquery_short_circuit [OF a', of ?H echo_settings]
  from inst have ne: ?no_execute by blast
  have c2: "\<not> truthy (dd_getattr (es ?G) ''_source'')
            \<or> py_in ''all'' (dd_getattr (es ?G) ''_source'') \<noteq> (Inl TypeError :: pyval exn + bool)"
    using c by simp
  have c3: "request_method ?H = ''POST'' \<longrightarrow>
            py_iter (py_or (dd_getattr (esqb ?G) ''ids'') (dd_getattr (esqb ?G) ''q''))
              \<noteq> (Inl TypeError :: pyval exn + pyval list)"
    using d by simp
  from inst c2 c3 obtain opts where
    ok: "get_cleaned_options ?H ?G = (Inr opts :: pyval exn + options)" and
    run: "\<forall>query.
            query_builder_build echo_settings (esqb opts) = Inr query
            \<longrightarrow> execute_pipeline ?H echo_settings ?G
                  = ([Build_call (Inr query)], Inl (Finish (query_to_dict echo_settings query)))
                \<and> emitted (snd (execute_pipeline ?H echo_settings ?G))
                  = Some (query_to_dict echo_settings query)"
    by blast
  have e: "esqb opts = [(''q'', ?Q)]"
    using ok by (auto simp: cleaner_defs)
  have q: "query_builder_build echo_settings (esqb opts) = Inr ?Q"
    by (simp add: e echo_settings_def dd_getattr_def)
  from run q have "execute_pipeline ?H echo_settings ?G
              = ([Build_call (Inr ?Q)], Inl (Finish (query_to_dict echo_settings ?Q)))
            \<and> emitted (snd (execute_pipeline ?H echo_settings ?G))
              = Some (query_to_dict echo_settings ?Q)"
    by blast
  then have "?run \<and> ?response" by (simp add: echo_settings_def)
  with a c d ne show ?thesis by blast
qed

text \<open>With neither flag the same request runs through all three collaborators.\<close>

lemma full_run_example:
  "execute_pipeline
     \<lparr>biothing_type = ''gene'', request_method = ''GET'', self_reason = ''OK''\<rparr>
     echo_settings
     \<lparr>control = [], esqb = [(''q'', PStr ''cdk2'')], es = [], transform = []\<rparr>
   = ([Build_call (Inr (PStr ''cdk2'')),
       Execute_call (Inr (PDict [(''hits'', PList [PStr ''cdk2''])])),
       Transform_call (Inr (PList [PDict [(''hits'', PList [PStr ''cdk2''])]]))],
      Inr (PList [PDict [(''hits'', PList [PStr ''cdk2''])]]))"
  by (simp add: execute_pipeline_def echo_settings_def cleaner_defs Let_def
      pre_query_builder_hook_def pre_query_hook_def pre_transform_hook_def pre_finish_hook_def)

section \<open>Properties of the error formatter\<close>

lemma write_error_Inr:
  assumes "write_error self status_code kwargs = (Inr env :: 'r exn + pydict)"
  shows "env = (if bad_request_kwargs (exc_info kwargs) \<noteq> []
                then dict_update (base_message status_code (resolve_reason self kwargs))
                       (bad_request_kwargs (exc_info kwargs))
                else base_message status_code (resolve_reason self kwargs))"
proof (cases "exc_info kwargs")
  case None
  with assms show ?thesis
    by (auto simp: write_error_def Let_def split: if_splits)
next
  case (Some e)
  with assms show ?thesis
    by (cases e) (auto simp: write_error_def Let_def split: if_splits)
qed

text \<open>
  C3, as stated: the envelope holds \<open>success: false\<close> for every error, also when the
  extra pairs of a bad-request error are merged. The merge is \<^verbatim>\<open>message.update\<close>,
  which lets the extra pairs replace the base entries: a bad request whose extra pairs
  hold the key \<open>success\<close> gives an envelope with that value.
\<close>

theorem envelope_success_counterexample:
  "write_error
     \<lparr>biothing_type = ''gene'', request_method = ''GET'', self_reason = ''Bad Request''\<rparr>
     400
     \<lparr>reason = None, exc_info = Some (BadRequest [(''success'', PBool True)])\<rparr>
   = (Inr [(''code'', PInt 400), (''success'', PBool True), (''error'', PStr ''Bad Request'')]
       :: pyval exn + pydict)
   \<and> map_of [(''code'', PInt 400), (''success'', PBool True), (''error'', PStr ''Bad Request'')]
        ''success'' \<noteq> Some (PBool False)"
  by (simp add: write_error_def resolve_reason_def base_message_def dict_update_def)

text \<open>
  C3, amended: for every status code, error and default reason for which the formatter
  produces an envelope, the envelope holds the key \<open>success\<close> with the value false
  whenever the extra pairs merged from a bad-request error do not themselves hold the
  key \<open>success\<close>; that covers every error that is no bad request or carries no extra
  pairs.
\<close>

theorem envelope_success_false:
  assumes env: "write_error self status_code kwargs = (Inr env :: 'r exn + pydict)"
    and extra: "map_of (bad_request_kwargs (exc_info kwargs)) ''success'' = None"
  shows "map_of env ''success'' = Some (PBool False)"
proof -
  have "map_of (base_message status_code (resolve_reason self kwargs)) ''success''
          = Some (PBool False)"
    by (simp add: base_message_def)
  moreover
  have "map_of (dict_update (base_message status_code (resolve_reason self kwargs))
                 (bad_request_kwargs (exc_info kwargs))) ''success''
          = map_of (base_message status_code (resolve_reason self kwargs)) ''success''"
    using extra by (rule map_of_dict_update_other)
  ultimately show ?thesis
    using write_error_Inr[OF env] by simp
qed

theorem envelope_success_false_witness:
  "write_error
     \<lparr>biothing_type = ''gene'', request_method = ''GET'', self_reason = ''Bad Request''\<rparr>
     400
     \<lparr>reason = None, exc_info = Some (BadRequest [(''field'', PStr ''size'')])\<rparr>
   = (Inr [(''code'', PInt 400), (''success'', PBool False), (''error'', PStr ''Bad Request''),
           (''field'', PStr ''size'')] :: pyval exn + pydict)
   \<and> map_of (bad_request_kwargs
        (Some (BadRequest [(''field'', PStr ''size'')] :: pyval exn))) ''success'' = None
   \<and> map_of [(''code'', PInt 400), (''success'', PBool False), (''error'', PStr ''Bad Request''),
              (''field'', PStr ''size'')] ''success'' = Some (PBool False)"
  (is "?env \<and> ?extra \<and> ?success")
proof -
  have a: ?env (is "write_error ?H _ ?K = _")
    by (simp add: write_error_def resolve_reason_def base_message_def dict_update_def)
  have b: ?extra by simp
  have b': "map_of (bad_request_kwargs (exc_info ?K)) ''success'' = None" by simp
  have ?success using envelope_success_false [OF a b'] .
  with a b show ?thesis by blast
qed

text \<open>
  C5, as stated: for every status code and error the formatter produces the envelope
  \<open>{code, success: false, error: reason}\<close>. This fails in two ways: a reason with a line
  break makes the formatter raise, and a bad-request error with extra pairs gives an
  envelope with more entries.
\<close>

theorem base_envelope_counterexample:
  "write_error
     \<lparr>biothing_type = ''gene'', request_method = ''GET'', self_reason = ''Bad Request''\<rparr>
     400
     \<lparr>reason = Some (''no such'' @ [CHR 0x0A] @ ''field''), exc_info = None\<rparr>
   = (Inl AssertionError :: pyval exn + pydict)
   \<and> write_error
     \<lparr>biothing_type = ''gene'', request_method = ''GET'', self_reason = ''Bad Request''\<rparr>
     400
     \<lparr>reason = None, exc_info = Some (BadRequest [(''field'', PStr ''size'')])\<rparr>
   = (Inr [(''code'', PInt 400), (''success'', PBool False), (''error'', PStr ''Bad Request''),
           (''field'', PStr ''size'')] :: pyval exn + pydict)"
  by (simp add: write_error_def resolve_reason_def base_message_def dict_update_def)

text \<open>
  C5, amended: for every status code and every error whose reason holds no line break
  and which is not a bad-request error with extra pairs, the formatter produces exactly
  the envelope \<open>{code: statusCode, success: false, error: reason}\<close>, where the reason is
  the \<^verbatim>\<open>reason\<close> argument when there is one and the default reason otherwise. For
  the status code 503 and the reason "timeout" that is
  \<open>{"code": 503, "success": false, "error": "timeout"}\<close>.
\<close>

theorem base_envelope:
  assumes "CHR 0x0A \<notin> set (case reason kwargs of Some r \<Rightarrow> r | None \<Rightarrow> self_reason self)"
    and "bad_request_kwargs (exc_info kwargs) = []"
  shows "write_error self status_code kwargs
       = (Inr [(''code'', PInt status_code), (''success'', PBool False),
               (''error'', PStr (case reason kwargs of Some r \<Rightarrow> r | None \<Rightarrow> self_reason self))]
           :: 'r exn + pydict)"
proof (cases "exc_info kwargs")
  case None
  with assms(1) show ?thesis
    by (simp add: write_error_def resolve_reason_def base_message_def)
next
  case (Some e)
  with assms show ?thesis
    by (cases e) (simp_all add: write_error_def resolve_reason_def base_message_def)
qed

theorem base_envelope_witness:
  "CHR 0x0A \<notin> set ''timeout''
   \<and> bad_request_kwargs (Some (OtherError ''timeout'' :: pyval exn)) = []
   \<and> write_error
       \<lparr>biothing_type = ''gene'', request_method = ''GET'', self_reason = ''timeout''\<rparr>
       503
       \<lparr>reason = None, exc_info = Some (OtherError ''timeout'')\<rparr>
     = (Inr [(''code'', PInt 503), (''success'', PBool False), (''error'', PStr ''timeout'')]
         :: pyval exn + pydict)"
  (is "?single_line \<and> ?no_extra \<and> ?env")
proof -
  let ?H = "\<lparr>biothing_type = ''gene'', request_method = ''GET'', self_reason = ''timeout''\<rparr>"
  let ?K = "\<lparr>reason = None, exc_info = Some (OtherError ''timeout'' :: pyval exn)\<rparr>"
  have a: ?single_line by simp
  have b: ?no_extra by simp
  have a': "CHR 0x0A \<notin> set (case reason ?K of Some r \<Rightarrow> r | None \<Rightarrow> self_reason ?H)"
    using a by simp
  have b': "bad_request_kwargs (exc_info ?K) = []" by simp
  have ?env using base_envelope [OF a' b', of 503] by simp
  with a b show ?thesis by blast
qed

text \<open>
  C9. Whenever the resolved reason holds a line break, the formatter raises the
  \<^verbatim>\<open>AssertionError\<close> and no envelope is produced; whenever it holds none, the
  assertion passes and the formatter produces an envelope.
\<close>

theorem line_break_assertion:
  "(CHR 0x0A \<in> set (resolve_reason self kwargs)
      \<longrightarrow> write_error self status_code kwargs = (Inl AssertionError :: 'r exn + pydict))
   \<and> (CHR 0x0A \<notin> set (resolve_reason self kwargs)
      \<longrightarrow> (\<exists>env. write_error self status_code kwargs = (Inr env :: 'r exn + pydict)))"
  by (simp add: write_error_def Let_def)

theorem line_break_assertion_witness:
  "CHR 0x0A \<in> set (resolve_reason
       \<lparr>biothing_type = ''gene'', request_method = ''GET'', self_reason = ''Bad Request''\<rparr>
       \<lparr>reason = Some (''no such'' @ [CHR 0x0A] @ ''field''), exc_info = (None :: pyval exn option)\<rparr>)
   \<and> write_error
       \<lparr>biothing_type = ''gene'', request_method = ''GET'', self_reason = ''Bad Request''\<rparr>
       400
       \<lparr>reason = Some (''no such'' @ [CHR 0x0A] @ ''field''), exc_info = None\<rparr>
     = (Inl AssertionError :: pyval exn + pydict)
   \<and> CHR 0x0A \<notin> set (resolve_reason
       \<lparr>biothing_type = ''gene'', request_method = ''GET'', self_reason = ''Bad Request''\<rparr>
       \<lparr>reason = Some ''no such field'', exc_info = (None :: pyval exn option)\<rparr>)
   \<and> (\<exists>env. write_error
       \<lparr>biothing_type = ''gene'', request_method = ''GET'', self_reason = ''Bad Request''\<rparr>
       400
       \<lparr>reason = Some ''no such field'', exc_info = None\<rparr>
     = (Inr env :: pyval exn + pydict))"
  (is "?broken \<and> ?raises \<and> ?single_line \<and> ?produces")
proof -
  have a: ?broken by (simp add: resolve_reason_def)
  have b: ?single_line by (simp add: resolve_reason_def)
  have ?raises using line_break_assertion a by blast
  moreover have ?produces using line_break_assertion b by blast
  ultimately show ?thesis using a b by blast
qed


end
